theory Spec2Isabelle
  imports Main "HOL-Library.Word" "HOL-Library.Sublist"
begin

section \<open>JavaScript values used by the dispatch core\<close>

text \<open>
  A JavaScript string is a sequence of UTF-16 code units. Literals of the source are
  ASCII and are written through \<open>js\<close>; the emoji of the catalogue are written as
  their surrogate pairs.
\<close>

type_synonym code_unit = "16 word"
type_synonym jsstring = "code_unit list"

definition js :: "string \<Rightarrow> jsstring" where
  "js s = map of_char s"

text \<open>
  Exceptions and promise rejections the modelled code can meet. \<open>PlatformError\<close>
  stands for any rejection of a native module (AsyncStorage, Linking, WebBrowser).
\<close>

datatype exn = URIError | TypeError | SyntaxError | PlatformError

text \<open>
  A JavaScript number, given by what \<open>Number::toString\<close> of ECMAScript reads from
  it: a finite non-zero number is its sign and the unique shortest decimal \<open>s\<close> with
  \<open>k\<close> digits and the exponent \<open>n\<close> such that the value is \<open>s * 10 ^ (n - k)\<close>.
  \<open>Finite neg ds n\<close> carries the digits \<open>ds\<close> of \<open>s\<close>, most significant first.
  \<open>Zero\<close> is both \<open>+0\<close> and \<open>-0\<close>: they print alike and are both falsy.
\<close>

datatype number = NaN | Infinity bool | Zero | Finite bool "nat list" int

definition digit_char :: "nat \<Rightarrow> code_unit" where
  "digit_char d = 0x30 + of_nat d"

fun decimal_of_nat :: "nat \<Rightarrow> jsstring" where
  "decimal_of_nat n =
     (if n < 10 then [digit_char n] else decimal_of_nat (n div 10) @ [digit_char (n mod 10)])"

definition positive_toString :: "nat list \<Rightarrow> int \<Rightarrow> jsstring" where
  "positive_toString ds n =
     (let k = int (length ds); digits = map digit_char ds in
      if k \<le> n \<and> n \<le> 21 then digits @ replicate (nat (n - k)) 0x30
      else if 0 < n \<and> n \<le> 21 then take (nat n) digits @ js ''.'' @ drop (nat n) digits
      else if - 6 < n \<and> n \<le> 0 then js ''0.'' @ replicate (nat (- n)) 0x30 @ digits
      else (if k = 1 then digits else take 1 digits @ js ''.'' @ drop 1 digits)
           @ js ''e'' @ (if n - 1 < 0 then js ''-'' else js ''+'')
           @ decimal_of_nat (nat \<bar>n - 1\<bar>))"

fun Number_toString :: "number \<Rightarrow> jsstring" where
  "Number_toString NaN = js ''NaN''"
| "Number_toString Zero = js ''0''"
| "Number_toString (Infinity neg) = (if neg then js ''-'' else []) @ js ''Infinity''"
| "Number_toString (Finite neg ds n) = (if neg then js ''-'' else []) @ positive_toString ds n"

text \<open>The data fragment of JavaScript values: what \<open>JSON.parse\<close> returns, and \<open>undefined\<close>.\<close>

datatype jsval =
    Undefined
  | Null
  | Bool bool
  | Num number
  | Str jsstring
  | Arr "jsval list"
  | Obj "(jsstring \<times> jsval) list"

fun truthy :: "jsval \<Rightarrow> bool" where
  "truthy Undefined = False"
| "truthy Null = False"
| "truthy (Bool b) = b"
| "truthy (Num n) = (n \<noteq> NaN \<and> n \<noteq> Zero)"
| "truthy (Str s) = (s \<noteq> [])"
| "truthy (Arr xs) = True"
| "truthy (Obj kvs) = True"

subsection \<open>encodeURIComponent\<close>

text \<open>
  ECMAScript's \<open>Encode\<close>: a code unit of the unescaped set is copied; anything else is
  read as a code point (a surrogate pair is one code point, an unpaired surrogate throws
  \<open>URIError\<close>) and written as the percent-escaped octets of its UTF-8 encoding.
\<close>

definition is_lead :: "code_unit \<Rightarrow> bool" where
  "is_lead c \<longleftrightarrow> 0xD800 \<le> c \<and> c \<le> 0xDBFF"

definition is_trail :: "code_unit \<Rightarrow> bool" where
  "is_trail c \<longleftrightarrow> 0xDC00 \<le> c \<and> c \<le> 0xDFFF"

definition is_alnum :: "code_unit \<Rightarrow> bool" where
  "is_alnum c \<longleftrightarrow>
     (0x41 \<le> c \<and> c \<le> 0x5A) \<or> (0x61 \<le> c \<and> c \<le> 0x7A) \<or> (0x30 \<le> c \<and> c \<le> 0x39)"

definition uri_unescaped :: "code_unit \<Rightarrow> bool" where
  "uri_unescaped c \<longleftrightarrow> is_alnum c \<or> c \<in> set (0x27 # js ''-_.!~*()'')"

definition pair_code_point :: "code_unit \<Rightarrow> code_unit \<Rightarrow> nat" where
  "pair_code_point hi lo = (unat hi - 0xD800) * 0x400 + (unat lo - 0xDC00) + 0x10000"

definition utf8_octets :: "nat \<Rightarrow> nat list" where
  "utf8_octets cp =
     (if cp < 0x80 then [cp]
      else if cp < 0x800 then [0xC0 + cp div 0x40, 0x80 + cp mod 0x40]
      else if cp < 0x10000 then
        [0xE0 + cp div 0x1000, 0x80 + (cp div 0x40) mod 0x40, 0x80 + cp mod 0x40]
      else
        [0xF0 + cp div 0x40000, 0x80 + (cp div 0x1000) mod 0x40,
         0x80 + (cp div 0x40) mod 0x40, 0x80 + cp mod 0x40])"

definition hex_digit :: "nat \<Rightarrow> code_unit" where
  "hex_digit d = (if d < 10 then 0x30 + of_nat d else 0x41 + of_nat (d - 10))"

definition percent_octet :: "nat \<Rightarrow> jsstring" where
  "percent_octet b = [0x25, hex_digit (b div 16), hex_digit (b mod 16)]"

definition percent_code_point :: "nat \<Rightarrow> jsstring" where
  "percent_code_point cp = concat (map percent_octet (utf8_octets cp))"

definition prepend :: "jsstring \<Rightarrow> exn + jsstring \<Rightarrow> exn + jsstring" where
  "prepend s r = (case r of Inl e \<Rightarrow> Inl e | Inr t \<Rightarrow> Inr (s @ t))"

fun Encode :: "(code_unit \<Rightarrow> bool) \<Rightarrow> jsstring \<Rightarrow> exn + jsstring" where
  "Encode unescaped [] = Inr []"
| "Encode unescaped (c # cs) =
     (if unescaped c then prepend [c] (Encode unescaped cs)
      else if is_trail c then Inl URIError
      else if is_lead c then
        (case cs of
           [] \<Rightarrow> Inl URIError
         | d # ds \<Rightarrow>
             if is_trail d
             then prepend (percent_code_point (pair_code_point c d)) (Encode unescaped ds)
             else Inl URIError)
      else prepend (percent_code_point (unat c)) (Encode unescaped cs))"

definition encodeURIComponent :: "jsstring \<Rightarrow> exn + jsstring" where
  "encodeURIComponent s = Encode uri_unescaped s"

subsection \<open>URLSearchParams\<close>

text \<open>
  \<open>URLSearchParams.toString\<close> is the application/x-www-form-urlencoded serialiser of
  the URL standard: names and values are converted to scalar values (an unpaired
  surrogate becomes U+FFFD, nothing throws), UTF-8 encoded, and every octet outside the
  alphanumerics and \<open>* - . _\<close> is percent-escaped, a space becoming \<open>+\<close>.
\<close>

definition form_unescaped :: "code_unit \<Rightarrow> bool" where
  "form_unescaped c \<longleftrightarrow> is_alnum c \<or> c \<in> set (js ''*-._'')"

fun form_encode :: "jsstring \<Rightarrow> jsstring" where
  "form_encode [] = []"
| "form_encode (c # cs) =
     (if form_unescaped c then c # form_encode cs
      else if c = 0x20 then 0x2B # form_encode cs
      else if is_trail c then percent_code_point 0xFFFD @ form_encode cs
      else if is_lead c then
        (case cs of
           [] \<Rightarrow> percent_code_point 0xFFFD
         | d # ds \<Rightarrow>
             if is_trail d
             then percent_code_point (pair_code_point c d) @ form_encode ds
             else percent_code_point 0xFFFD @ form_encode cs)
      else percent_code_point (unat c) @ form_encode cs)"

fun URLSearchParams_toString :: "(jsstring \<times> jsstring) list \<Rightarrow> jsstring" where
  "URLSearchParams_toString [] = []"
| "URLSearchParams_toString [(k, v)] = form_encode k @ js ''='' @ form_encode v"
| "URLSearchParams_toString ((k, v) # ps) =
     form_encode k @ js ''='' @ form_encode v @ js ''&'' @ URLSearchParams_toString ps"

section \<open>The provider catalogue (useAppManager)\<close>

text \<open>
  \<open>RideAppConfig\<close>; the field \<open>id\<close> of the source is \<open>app_id\<close> here. The interface declares \<open>enabled: boolean\<close>; at run time the
  field holds whatever \<open>JSON.parse\<close> delivered, because \<open>loadAppConfiguration\<close> copies
  \<open>storedApp.enabled\<close> unchecked, so the model keeps the JavaScript value and reads it
  through \<open>truthy\<close> where the source tests it.
\<close>

record RideAppConfig =
  app_id :: jsstring
  name :: jsstring
  icon :: jsstring
  color :: jsstring
  packageId :: jsstring
  enabled :: jsval
  deepLinkScheme :: jsstring
  playStoreUrl :: jsstring

definition mk_app ::
  "string \<Rightarrow> string \<Rightarrow> jsstring \<Rightarrow> string \<Rightarrow> string \<Rightarrow> bool \<Rightarrow> string \<Rightarrow> RideAppConfig" where
  "mk_app i n ic c p e s =
     \<lparr>app_id = js i, name = js n, icon = ic, color = js c, packageId = js p, enabled = Bool e,
      deepLinkScheme = js s, playStoreUrl = js ''market://details?id='' @ js p\<rparr>"

definition DEFAULT_RIDE_APPS :: "RideAppConfig list" where
  "DEFAULT_RIDE_APPS =
     [mk_app ''uber'' ''Uber'' [0xD83D, 0xDE97] ''#000000'' ''com.ubercab'' True ''uber'',
      mk_app ''99'' ''99'' [0xD83D, 0xDFE1] ''#ffd700'' ''com.taxis99'' True ''taxis99'',
      mk_app ''lyft'' ''Lyft'' [0xD83D, 0xDFE3] ''#ff00bf'' ''com.lyft'' True ''lyft'',
      mk_app ''taxirio'' ''Taxi.Rio'' [0xD83D, 0xDE95] ''#ff6b35''
        ''br.gov.rj.taxi.rio.passenger'' False ''br.gov.rj.taxi.rio.passenger'',
      mk_app ''indriver'' ''inDriver'' [0xD83D, 0xDD35] ''#1e40af''
        ''sinet.startup.inDriver'' False ''indriver'',
      mk_app ''bolt'' ''Bolt'' [0x26A1] ''#34d399'' ''ee.mtakso.client'' False ''bolt'',
      mk_app ''grab'' ''Grab'' [0xD83D, 0xDFE2] ''#00b14f'' ''com.grabtaxi.passenger'' False ''grab'',
      mk_app ''careem'' ''Careem'' [0xD83D, 0xDFE4] ''#8b5a2b'' ''com.careem.acma'' False ''careem'',
      mk_app ''ola'' ''Ola'' [0xD83D, 0xDFE0] ''#f97316'' ''com.olacabs.customer'' False ''olacabs'',
      mk_app ''yandex'' ''Yandex Go'' [0xD83D, 0xDD34] ''#dc2626'' ''ru.yandex.taxi'' False
        ''yandextaxi'']"

section \<open>The deep-link builder (useRideApps.createDeepLink)\<close>

record LocationData =
  latitude :: number
  longitude :: number
  address :: jsstring
  placeId :: "jsstring option"

datatype os = Web | Android | IOS | Windows | MacOS

definition uber_web_params :: "LocationData \<Rightarrow> LocationData \<Rightarrow> (jsstring \<times> jsstring) list" where
  "uber_web_params pickup destination =
     [(js ''action'', js ''setPickup''),
      (js ''pickup[formatted_address]'', address pickup),
      (js ''dropoff[formatted_address]'', address destination)]
     @ (if truthy (Num (latitude pickup)) \<and> truthy (Num (longitude pickup))
        then [(js ''pickup[latitude]'', Number_toString (latitude pickup)),
              (js ''pickup[longitude]'', Number_toString (longitude pickup))]
        else [])
     @ (if truthy (Num (latitude destination)) \<and> truthy (Num (longitude destination))
        then [(js ''dropoff[latitude]'', Number_toString (latitude destination)),
              (js ''dropoff[longitude]'', Number_toString (longitude destination))]
        else [])"

text \<open>
  \<open>link_for\<close> is the \<open>switch (app.id)\<close> of \<open>createDeepLink\<close>, entered once both
  addresses have been encoded; \<open>createDeepLink\<close> encodes them first, pickup before
  destination, so that an address with an unpaired surrogate throws for every provider.
\<close>

definition link_for ::
  "os \<Rightarrow> jsstring \<Rightarrow> LocationData \<Rightarrow> LocationData \<Rightarrow> jsstring \<Rightarrow> jsstring \<Rightarrow> jsstring" where
  "link_for platform i pickup destination pickupAddress destinationAddress =
     (let latO = Number_toString (latitude pickup); lngO = Number_toString (longitude pickup);
          latD = Number_toString (latitude destination);
          lngD = Number_toString (longitude destination) in
      if i = js ''uber'' then
        (if platform \<noteq> Web
         then js ''uber://?action=setPickup&pickup[formatted_address]='' @ pickupAddress
              @ js ''&dropoff[formatted_address]='' @ destinationAddress
         else js ''https://m.uber.com/ul/?''
              @ URLSearchParams_toString (uber_web_params pickup destination))
      else if i = js ''99'' then
        js ''taxis99://call?pickup_latitude='' @ latO @ js ''&pickup_longitude='' @ lngO
        @ js ''&pickup_title='' @ pickupAddress @ js ''&dropoff_latitude='' @ latD
        @ js ''&dropoff_longitude='' @ lngD @ js ''&dropoff_title='' @ destinationAddress
      else if i = js ''taxirio'' then js ''br.gov.rj.taxi.rio.passenger://ride''
      else if i = js ''indriver'' then js ''indriver://open''
      else if i = js ''lyft'' then
        js ''lyft://ridetype?id=lyft&pickup[latitude]='' @ latO @ js ''&pickup[longitude]='' @ lngO
        @ js ''&destination[latitude]='' @ latD @ js ''&destination[longitude]='' @ lngD
      else if i = js ''bolt'' then
        js ''bolt://ride?pickup_lat='' @ latO @ js ''&pickup_lng='' @ lngO
        @ js ''&destination_lat='' @ latD @ js ''&destination_lng='' @ lngD
      else if i = js ''grab'' then
        js ''grab://open?screenType=BOOK&type=TRANSPORT&pickup.latitude='' @ latO
        @ js ''&pickup.longitude='' @ lngO @ js ''&dropoff.latitude='' @ latD
        @ js ''&dropoff.longitude='' @ lngD
      else if i = js ''careem'' then
        js ''careem://ride?pickup_latitude='' @ latO @ js ''&pickup_longitude='' @ lngO
        @ js ''&dropoff_latitude='' @ latD @ js ''&dropoff_longitude='' @ lngD
      else if i = js ''ola'' then
        js ''olacabs://app/setpickup?lat='' @ latO @ js ''&lng='' @ lngO
        @ js ''&drop_lat='' @ latD @ js ''&drop_lng='' @ lngD
      else if i = js ''yandex'' then
        js ''yandextaxi://route?start-lat='' @ latO @ js ''&start-lon='' @ lngO
        @ js ''&end-lat='' @ latD @ js ''&end-lon='' @ lngD
      else [])"

definition createDeepLink ::
  "os \<Rightarrow> RideAppConfig \<Rightarrow> LocationData \<Rightarrow> LocationData \<Rightarrow> exn + jsstring" where
  "createDeepLink platform app pickup destination =
     (case encodeURIComponent (address pickup) of
        Inl e \<Rightarrow> Inl e
      | Inr pickupAddress \<Rightarrow>
          (case encodeURIComponent (address destination) of
             Inl e \<Rightarrow> Inl e
           | Inr destinationAddress \<Rightarrow>
               Inr (link_for platform (app_id app) pickup destination
                      pickupAddress destinationAddress)))"

text \<open>
  The route of scenarios A and B of the specification. The latitude \<open>-22.9068\<close> is
  \<open>-0.229068 * 10 ^ 2\<close>: the digits \<open>229068\<close> with \<open>n = 2\<close>; likewise the others.
\<close>

definition scenario_pickup :: LocationData where
  "scenario_pickup =
     \<lparr>latitude = Finite True [2, 2, 9, 0, 6, 8] 2, longitude = Finite True [4, 3, 1, 7, 2, 9] 2,
      address = js ''Rua Senador Vergueiro 218, Rio de Janeiro'', placeId = None\<rparr>"

definition scenario_destination :: LocationData where
  "scenario_destination =
     \<lparr>latitude = Finite True [2, 2, 9, 2, 4, 9] 2, longitude = Finite True [4, 3, 1, 7, 7, 7] 2,
      address = js ''Rua do Catete 214, Rio de Janeiro'', placeId = None\<rparr>"


section \<open>The registry (useAppManager)\<close>

record AppManager =
  rideApps :: "RideAppConfig list"
  loading :: bool

text \<open>The hook's state at mount: \<open>useState(DEFAULT_RIDE_APPS)\<close>, \<open>useState(true)\<close>.\<close>

definition useAppManager_initial :: AppManager where
  "useAppManager_initial = \<lparr>rideApps = DEFAULT_RIDE_APPS, loading = True\<rparr>"

definition APP_MANAGER_STORAGE_KEY :: jsstring where
  "APP_MANAGER_STORAGE_KEY = js ''ridelink_app_manager_config''"

subsection \<open>Reading: loadAppConfiguration\<close>

text \<open>
  What \<open>AsyncStorage.getItem\<close> resolves to is \<open>null\<close> (no such key) or a string.
  A stored string is given by what the code can see of it: it is empty (falsy, never
  parsed), or \<open>JSON.parse\<close> throws \<open>SyntaxError\<close> on it, or \<open>JSON.parse\<close> returns
  a value.
\<close>

datatype stored_text = EmptyText | BadText | JsonText jsval

type_synonym getItem_result = "exn + stored_text option"

text \<open>
  \<open>v.k\<close> for a property name \<open>k\<close> that no built-in prototype defines (\<open>id\<close>,
  \<open>enabled\<close>): reading it from \<open>null\<close> or \<open>undefined\<close> throws \<open>TypeError\<close>, an
  object gives its own property, every other value gives \<open>undefined\<close>. The list of an
  \<open>Obj\<close> holds the object's own properties, the first entry of a key being its value.
\<close>

definition get_prop :: "jsval \<Rightarrow> jsstring \<Rightarrow> exn + jsval" where
  "get_prop v k =
     (case v of
        Undefined \<Rightarrow> Inl TypeError
      | Null \<Rightarrow> Inl TypeError
      | Obj kvs \<Rightarrow> Inr (case map_of kvs k of Some x \<Rightarrow> x | None \<Rightarrow> Undefined)
      | _ \<Rightarrow> Inr Undefined)"

text \<open>\<open>xs.find(app => app.id === i)\<close>: the first match, \<open>undefined\<close> when there is none.\<close>

fun find_by_id :: "jsstring \<Rightarrow> jsval list \<Rightarrow> exn + jsval" where
  "find_by_id i [] = Inr Undefined"
| "find_by_id i (app # rest) =
     (case get_prop app (js ''id'') of
        Inl e \<Rightarrow> Inl e
      | Inr v \<Rightarrow> if v = Str i then Inr app else find_by_id i rest)"

text \<open>
  The callback of \<open>DEFAULT_RIDE_APPS.map\<close>. \<open>storedConfig.find\<close> is a function only
  when \<open>storedConfig\<close> is an array; calling it on anything else throws \<open>TypeError\<close>.
\<close>

definition merge_app :: "jsval \<Rightarrow> RideAppConfig \<Rightarrow> exn + RideAppConfig" where
  "merge_app storedConfig defaultApp =
     (case storedConfig of
        Arr xs \<Rightarrow>
          (case find_by_id (app_id defaultApp) xs of
             Inl e \<Rightarrow> Inl e
           | Inr storedApp \<Rightarrow>
               if truthy storedApp
               then (case get_prop storedApp (js ''enabled'') of
                       Inl e \<Rightarrow> Inl e
                     | Inr v \<Rightarrow> Inr (defaultApp\<lparr>enabled := v\<rparr>))
               else Inr defaultApp)
      | _ \<Rightarrow> Inl TypeError)"

text \<open>\<open>Array.prototype.map\<close> with a callback that may throw: the first throw ends it.\<close>

fun map_throwing :: "('a \<Rightarrow> exn + 'b) \<Rightarrow> 'a list \<Rightarrow> exn + 'b list" where
  "map_throwing f [] = Inr []"
| "map_throwing f (x # xs) =
     (case f x of
        Inl e \<Rightarrow> Inl e
      | Inr y \<Rightarrow> (case map_throwing f xs of Inl e \<Rightarrow> Inl e | Inr ys \<Rightarrow> Inr (y # ys)))"

text \<open>
  The body of the \<open>try\<close> of \<open>loadAppConfiguration\<close>: \<open>Inr (Some mergedApps)\<close> when
  \<open>setRideApps(mergedApps)\<close> is reached, \<open>Inr None\<close> when \<open>stored\<close> is falsy, \<open>Inl\<close>
  when something throws.
\<close>

definition load_try :: "getItem_result \<Rightarrow> exn + RideAppConfig list option" where
  "load_try getItem =
     (case getItem of
        Inl e \<Rightarrow> Inl e
      | Inr None \<Rightarrow> Inr None
      | Inr (Some EmptyText) \<Rightarrow> Inr None
      | Inr (Some BadText) \<Rightarrow> Inl SyntaxError
      | Inr (Some (JsonText storedConfig)) \<Rightarrow>
          (case map_throwing (merge_app storedConfig) DEFAULT_RIDE_APPS of
             Inl e \<Rightarrow> Inl e
           | Inr mergedApps \<Rightarrow> Inr (Some mergedApps)))"

text \<open>
  \<open>loadAppConfiguration\<close>: the \<open>catch\<close> logs and swallows the exception, the
  \<open>finally\<close> clears \<open>loading\<close>. The first component is what the returned promise
  settles to.
\<close>

definition loadAppConfiguration :: "getItem_result \<Rightarrow> AppManager \<Rightarrow> (exn + unit) \<times> AppManager" where
  "loadAppConfiguration getItem s =
     (case load_try getItem of
        Inr (Some mergedApps) \<Rightarrow> (Inr (), s\<lparr>rideApps := mergedApps, loading := False\<rparr>)
      | Inr None \<Rightarrow> (Inr (), s\<lparr>loading := False\<rparr>)
      | Inl e \<Rightarrow> (Inr (), s\<lparr>loading := False\<rparr>))"

subsection \<open>Writing: saveAppConfiguration, toggleAppEnabled, resetToDefaults\<close>

text \<open>
  \<open>AppConfigEventEmitter\<close>: the listeners in subscription order. A listener is known by
  a number; the only listeners of the repository are the reload callbacks of the mounted
  \<open>useAppManager\<close> hooks, which start \<open>loadAppConfiguration\<close> and never throw.
\<close>

type_synonym listeners = "nat list"

definition subscribe :: "nat \<Rightarrow> listeners \<Rightarrow> listeners" where
  "subscribe listener ls = ls @ [listener]"

definition unsubscribe :: "nat \<Rightarrow> listeners \<Rightarrow> listeners" where
  "unsubscribe listener ls = filter (\<lambda>l. l \<noteq> listener) ls"

text \<open>
  What a registry operation does to the outside, in order. \<open>Storage_setItem k c\<close> is the
  awaited call \<open>AsyncStorage.setItem(k, JSON.stringify(c))\<close>; \<open>Listener_called l\<close> is
  the emitter calling listener \<open>l\<close>. Console output is not recorded.
\<close>

datatype registry_effect = Storage_setItem jsstring "RideAppConfig list" | Listener_called nat

definition emit :: "listeners \<Rightarrow> registry_effect list" where
  "emit ls = map Listener_called ls"

text \<open>
  \<open>setItem\<close> is the outcome of the awaited write: \<open>None\<close> when it resolves, \<open>Some e\<close>
  when it rejects with \<open>e\<close>. The result is what the returned promise settles to, the
  hook's state afterwards, and the effects.
\<close>

definition saveAppConfiguration ::
  "exn option \<Rightarrow> listeners \<Rightarrow> RideAppConfig list \<Rightarrow> AppManager
   \<Rightarrow> (exn + unit) \<times> AppManager \<times> registry_effect list" where
  "saveAppConfiguration setItem ls newConfig s =
     (case setItem of
        Some e \<Rightarrow> (Inl e, s, [Storage_setItem APP_MANAGER_STORAGE_KEY newConfig])
      | None \<Rightarrow>
          (Inr (), s\<lparr>rideApps := newConfig\<rparr>,
           [Storage_setItem APP_MANAGER_STORAGE_KEY newConfig] @ emit ls))"

definition toggleAppEnabled ::
  "exn option \<Rightarrow> listeners \<Rightarrow> jsstring \<Rightarrow> AppManager
   \<Rightarrow> (exn + unit) \<times> AppManager \<times> registry_effect list" where
  "toggleAppEnabled setItem ls appId s =
     (let updatedApps =
            map (\<lambda>app. if app_id app = appId
                        then app\<lparr>enabled := Bool (\<not> truthy (enabled app))\<rparr> else app)
              (rideApps s)
      in saveAppConfiguration setItem ls updatedApps s)"

definition resetToDefaults ::
  "exn option \<Rightarrow> listeners \<Rightarrow> AppManager \<Rightarrow> (exn + unit) \<times> AppManager \<times> registry_effect list" where
  "resetToDefaults setItem ls s = saveAppConfiguration setItem ls DEFAULT_RIDE_APPS s"


text \<open>
  A history of the registry: toggles and resets with the outcome of their write, and
  reloads (at mount, after a notification, or through \<open>refresh\<close>) with what the read
  returned.
\<close>

datatype registry_op =
    Toggle jsstring "exn option"
  | Reset "exn option"
  | Load getItem_result

fun apply_op :: "listeners \<Rightarrow> registry_op \<Rightarrow> AppManager \<Rightarrow> AppManager" where
  "apply_op ls (Toggle appId setItem) s = fst (snd (toggleAppEnabled setItem ls appId s))"
| "apply_op ls (Reset setItem) s = fst (snd (resetToDefaults setItem ls s))"
| "apply_op ls (Load getItem) s = snd (loadAppConfiguration getItem s)"

fun run_ops :: "listeners \<Rightarrow> registry_op list \<Rightarrow> AppManager \<Rightarrow> AppManager" where
  "run_ops ls [] s = s"
| "run_ops ls (op # ops) s = run_ops ls ops (apply_op ls op s)"

text \<open>
  The specification's wording of the merge, over the overrides as a mapping from id to
  enabled value: an override replaces the default's \<open>enabled\<close> and nothing else.
\<close>

definition merge_spec :: "RideAppConfig list \<Rightarrow> (jsstring \<rightharpoonup> jsval) \<Rightarrow> RideAppConfig list" where
  "merge_spec D ov =
     map (\<lambda>d. case ov (app_id d) of Some e \<Rightarrow> d\<lparr>enabled := e\<rparr> | None \<Rightarrow> d) D"

text \<open>
  The mapping a stored array of objects stands for: an object whose \<open>id\<close> is a string
  overrides that id with its \<open>enabled\<close> property, the first such object winning.
\<close>

definition is_Obj :: "jsval \<Rightarrow> bool" where
  "is_Obj v = (case v of Obj kvs \<Rightarrow> True | _ \<Rightarrow> False)"

fun overrides_of :: "jsval list \<Rightarrow> (jsstring \<rightharpoonup> jsval)" where
  "overrides_of [] = Map.empty"
| "overrides_of (Obj kvs # rest) =
     (case map_of kvs (js ''id'') of
        Some (Str i) \<Rightarrow>
          (overrides_of rest)
            (i \<mapsto> (case map_of kvs (js ''enabled'') of Some e \<Rightarrow> e | None \<Rightarrow> Undefined))
      | _ \<Rightarrow> overrides_of rest)"
| "overrides_of (v # rest) = overrides_of rest"

section \<open>The launch orchestrator (useRideApps.openRideApp)\<close>

text \<open>
  The platform as the code meets it: \<open>Platform.OS\<close> and, for each URI, what the awaited
  calls of \<open>Linking\<close> and \<open>WebBrowser\<close> do (\<open>None\<close>: the call resolves).
\<close>

record platform =
  OS :: os
  Linking_canOpenURL :: "jsstring \<Rightarrow> exn + bool"
  Linking_openURL :: "jsstring \<Rightarrow> exn option"
  WebBrowser_openBrowserAsync :: "jsstring \<Rightarrow> exn option"

text \<open>
  Alerts are known by the translation keys of their title, and carry their buttons; a
  store button carries the call its \<open>onPress\<close> makes. The translation function
  \<open>t\<close> catches its own exceptions, so building an alert's text never throws.
\<close>

datatype store_action = Via_Linking_openURL jsstring | Via_window_open jsstring

datatype button = Cancel | Ok | OpenPlayStore store_action

datatype alert_kind =
    RideApp_webNotSupported
  | RideApp_opened
  | RideApp_notInstalled
  | RideApp_openingPlayStore
  | RideApp_errorOpening
  | Alert_requiredAddresses
  | Alert_coordinatesRequired

datatype effect =
    SetIsLoading bool
  | Call_openBrowserAsync jsstring
  | Call_canOpenURL jsstring
  | Call_openURL jsstring
  | Call_window_open jsstring
  | Alert_alert alert_kind "button list"
  | SetTimeout nat "effect list"

fun is_platform_call :: "effect \<Rightarrow> bool" where
  "is_platform_call (Call_openBrowserAsync u) = True"
| "is_platform_call (Call_canOpenURL u) = True"
| "is_platform_call (Call_openURL u) = True"
| "is_platform_call (Call_window_open u) = True"
| "is_platform_call e = False"

definition platform_calls :: "effect list \<Rightarrow> effect list" where
  "platform_calls es = filter is_platform_call es"

text \<open>
  \<open>s.replace(pat, rep)\<close> for a string pattern and a replacement without \<open>$\<close>: the first
  occurrence of \<open>pat\<close> is replaced.
\<close>

fun String_replace :: "jsstring \<Rightarrow> jsstring \<Rightarrow> jsstring \<Rightarrow> jsstring" where
  "String_replace pat rep [] = (if pat = [] then rep else [])"
| "String_replace pat rep (c # cs) =
     (if prefix pat (c # cs) then rep @ drop (length pat) (c # cs)
      else c # String_replace pat rep cs)"

definition route_prefilled :: "jsstring list" where
  "route_prefilled =
     map js [''uber'', ''99'', ''lyft'', ''bolt'', ''grab'', ''careem'', ''ola'', ''yandex'']"

definition store_prompt :: "alert_kind \<Rightarrow> RideAppConfig \<Rightarrow> effect" where
  "store_prompt kind app =
     Alert_alert kind [Cancel, OpenPlayStore (Via_Linking_openURL (playStoreUrl app))]"

text \<open>
  The inner \<open>try\<close> of \<open>openRideApp\<close>, for mobile platforms. A rejection of
  \<open>canOpenURL\<close> or of \<open>openURL\<close> is caught by the inner \<open>catch\<close>, which shows the
  opening-play-store prompt.
\<close>

definition open_mobile :: "platform \<Rightarrow> RideAppConfig \<Rightarrow> jsstring \<Rightarrow> effect list" where
  "open_mobile P app deepLink =
     Call_canOpenURL deepLink #
     (case Linking_canOpenURL P deepLink of
        Inl linkingError \<Rightarrow> [store_prompt RideApp_openingPlayStore app]
      | Inr canOpen \<Rightarrow>
          if canOpen then
            Call_openURL deepLink #
            (case Linking_openURL P deepLink of
               Some linkingError \<Rightarrow> [store_prompt RideApp_openingPlayStore app]
             | None \<Rightarrow>
                 if app_id app \<in> set route_prefilled
                 then [SetTimeout 1000 [Alert_alert RideApp_opened [Ok]]]
                 else [])
          else [store_prompt RideApp_notInstalled app])"

text \<open>
  The web branch. A rejection of \<open>openBrowserAsync\<close> leaves the branch for the outer
  \<open>catch\<close> of \<open>openRideApp\<close>.
\<close>

definition open_web :: "platform \<Rightarrow> RideAppConfig \<Rightarrow> jsstring \<Rightarrow> exn + effect list" where
  "open_web P app deepLink =
     (if app_id app = js ''uber'' then
        (case WebBrowser_openBrowserAsync P deepLink of
           Some e \<Rightarrow> Inl e
         | None \<Rightarrow> Inr [Call_openBrowserAsync deepLink])
      else
        Inr [Alert_alert RideApp_webNotSupported
               [Cancel,
                OpenPlayStore
                  (Via_window_open
                     (String_replace (js ''market://'')
                        (js ''https://play.google.com/store/apps/'') (playStoreUrl app)))]])"

text \<open>
  \<open>openRideApp\<close>: the outer \<open>try\<close> builds the link and branches on the platform; the
  outer \<open>catch\<close> shows the error alert; the \<open>finally\<close> clears \<open>isLoading\<close>. The
  returned promise never rejects, so the result is the list of effects, in order. Console
  output is not recorded.
\<close>

definition openRideApp ::
  "platform \<Rightarrow> RideAppConfig \<Rightarrow> LocationData \<Rightarrow> LocationData \<Rightarrow> effect list" where
  "openRideApp P app pickup destination =
     SetIsLoading True #
     (case createDeepLink (OS P) app pickup destination of
        Inl error \<Rightarrow> [Alert_alert RideApp_errorOpening []]
      | Inr deepLink \<Rightarrow>
          if OS P = Web then
            (case open_web P app deepLink of
               Inl error \<Rightarrow> [Call_openBrowserAsync deepLink, Alert_alert RideApp_errorOpening []]
             | Inr es \<Rightarrow> es)
          else open_mobile P app deepLink)
     @ [SetIsLoading False]"

text \<open>Pressing a button of an alert runs its \<open>onPress\<close>.\<close>

fun press :: "button \<Rightarrow> effect list" where
  "press (OpenPlayStore (Via_Linking_openURL url)) = [Call_openURL url]"
| "press (OpenPlayStore (Via_window_open url)) = [Call_window_open url]"
| "press b = []"

section \<open>The home screen's handler (handleRideAppPress)\<close>

text \<open>
  The screen's state that the handler reads. Coordinates are
  \<open>{ latitude, longitude } | null\<close>, here a pair or \<open>None\<close>; \<open>enabledApps\<close> is the
  \<open>rideApps\<close> of \<open>useRideApps\<close>, the enabled providers.
\<close>

record HomeScreen =
  pickupAddress :: jsstring
  destinationAddress :: jsstring
  pickupCoords :: "(number \<times> number) option"
  destinationCoords :: "(number \<times> number) option"
  pickupPlaceId :: "jsstring option"
  destinationPlaceId :: "jsstring option"
  enabledApps :: "RideAppConfig list"

text \<open>\<open>String.prototype.trim\<close> strips ECMAScript's white space and line terminators.\<close>

definition is_white_space :: "code_unit \<Rightarrow> bool" where
  "is_white_space c \<longleftrightarrow>
     c \<in> set [0x09, 0x0A, 0x0B, 0x0C, 0x0D, 0x20, 0xA0, 0x1680, 0x2028, 0x2029, 0x202F,
               0x205F, 0x3000, 0xFEFF]
     \<or> (0x2000 \<le> c \<and> c \<le> 0x200A)"

definition String_trim :: "jsstring \<Rightarrow> jsstring" where
  "String_trim s = rev (dropWhile is_white_space (rev (dropWhile is_white_space s)))"

text \<open>
  \<open>handleRideAppPress\<close>. \<open>rideApps[appIndex]\<close> out of range is \<open>undefined\<close>, and
  reading its \<open>name\<close> for the log throws \<open>TypeError\<close>.
\<close>

definition handleRideAppPress :: "platform \<Rightarrow> HomeScreen \<Rightarrow> nat \<Rightarrow> exn + effect list" where
  "handleRideAppPress P scr appIndex =
     (if String_trim (pickupAddress scr) = [] \<or> String_trim (destinationAddress scr) = []
      then Inr [Alert_alert Alert_requiredAddresses []]
      else
        (case (pickupCoords scr, destinationCoords scr) of
           (Some (latO, lngO), Some (latD, lngD)) \<Rightarrow>
             if appIndex < length (enabledApps scr) then
               Inr (openRideApp P (enabledApps scr ! appIndex)
                      \<lparr>latitude = latO, longitude = lngO, address = pickupAddress scr,
                       placeId = pickupPlaceId scr\<rparr>
                      \<lparr>latitude = latD, longitude = lngD, address = destinationAddress scr,
                       placeId = destinationPlaceId scr\<rparr>)
             else Inl TypeError
         | _ \<Rightarrow> Inr [Alert_alert Alert_coordinatesRequired []]))"

section \<open>Inputs of the examples\<close>

text \<open>
  A phone on which no provider's app is installed, one that claims to open any URI, and a
  browser.
\<close>

definition android_without_apps :: platform where
  "android_without_apps =
     \<lparr>OS = Android, Linking_canOpenURL = (\<lambda>u. Inr False), Linking_openURL = (\<lambda>u. None),
      WebBrowser_openBrowserAsync = (\<lambda>u. None)\<rparr>"

definition android_opening_anything :: platform where
  "android_opening_anything =
     \<lparr>OS = Android, Linking_canOpenURL = (\<lambda>u. Inr True), Linking_openURL = (\<lambda>u. None),
      WebBrowser_openBrowserAsync = (\<lambda>u. None)\<rparr>"

definition web_browser :: platform where
  "web_browser =
     \<lparr>OS = Web, Linking_canOpenURL = (\<lambda>u. Inr False), Linking_openURL = (\<lambda>u. None),
      WebBrowser_openBrowserAsync = (\<lambda>u. None)\<rparr>"

text \<open>The catalogue's entries for Uber and 99.\<close>

definition catalogue_uber :: RideAppConfig where
  "catalogue_uber = DEFAULT_RIDE_APPS ! 0"

definition catalogue_99 :: RideAppConfig where
  "catalogue_99 = DEFAULT_RIDE_APPS ! 1"

text \<open>The case labels of the \<open>switch\<close> of \<open>createDeepLink\<close>, and a provider outside them.\<close>

definition createDeepLink_ids :: "jsstring list" where
  "createDeepLink_ids =
     map js [''uber'', ''99'', ''taxirio'', ''indriver'', ''lyft'', ''bolt'', ''grab'', ''careem'',
             ''ola'', ''yandex'']"

definition unknown_app :: RideAppConfig where
  "unknown_app = mk_app ''cabify'' ''Cabify'' [0x26A1] ''#7350ff'' ''com.cabify.rider'' True ''cabify''"

text \<open>A home screen whose destination field holds two spaces and has no coordinates.\<close>

definition screen_without_destination :: HomeScreen where
  "screen_without_destination =
     \<lparr>pickupAddress = address scenario_pickup, destinationAddress = js ''  '',
      pickupCoords = Some (latitude scenario_pickup, longitude scenario_pickup),
      destinationCoords = None, pickupPlaceId = None, destinationPlaceId = None,
      enabledApps = filter (\<lambda>app. truthy (enabled app)) DEFAULT_RIDE_APPS\<rparr>"

text \<open>A stored array with two overrides for \<open>uber\<close>: the first one counts.\<close>

definition stored_overrides :: "jsval list" where
  "stored_overrides =
     [Obj [(js ''id'', Str (js ''uber'')), (js ''enabled'', Bool False)],
      Obj [(js ''id'', Str (js ''bolt'')), (js ''enabled'', Bool True)],
      Obj [(js ''id'', Str (js ''uber'')), (js ''enabled'', Bool True)]]"

text \<open>The registry after \<open>uber\<close> has been switched off and the write has succeeded.\<close>

definition toggled_uber :: AppManager where
  "toggled_uber = fst (snd (toggleAppEnabled None [] (js ''uber'') useAppManager_initial))"


section \<open>The deep-link builder\<close>

lemmas encode_defs = encodeURIComponent_def uri_unescaped_def is_alnum_def is_trail_def
  is_lead_def prepend_def percent_code_point_def utf8_octets_def percent_octet_def hex_digit_def

lemma encode_scenario_pickup:
  "encodeURIComponent (address scenario_pickup)
     = Inr (js ''Rua%20Senador%20Vergueiro%20218%2C%20Rio%20de%20Janeiro'')"
  by (simp add: scenario_pickup_def js_def encode_defs)

lemma encode_scenario_destination:
  "encodeURIComponent (address scenario_destination)
     = Inr (js ''Rua%20do%20Catete%20214%2C%20Rio%20de%20Janeiro'')"
  by (simp add: scenario_destination_def js_def encode_defs)

lemma encode_empty: "encodeURIComponent [] = Inr []"
  by (simp add: encodeURIComponent_def)

lemma scenario_coordinates:
  "Number_toString (latitude scenario_pickup) = js ''-22.9068''"
  "Number_toString (longitude scenario_pickup) = js ''-43.1729''"
  "Number_toString (latitude scenario_destination) = js ''-22.9249''"
  "Number_toString (longitude scenario_destination) = js ''-43.1777''"
  by (simp_all add: scenario_pickup_def scenario_destination_def positive_toString_def
      digit_char_def js_def)

lemma js_append: "js (a @ b) = js a @ js b"
  by (simp add: js_def)

lemma uber_link:
  assumes "platform \<noteq> Web" and "app_id app = js ''uber''"
  shows "createDeepLink platform app scenario_pickup scenario_destination
    = Inr (js ''uber://?'' @ js ''action=setPickup'' @ js ''&pickup[formatted_address]=''
           @ js ''Rua%20Senador%20Vergueiro%20218%2C%20Rio%20de%20Janeiro''
           @ js ''&dropoff[formatted_address]=''
           @ js ''Rua%20do%20Catete%20214%2C%20Rio%20de%20Janeiro'')"
  using assms
  by (simp add: createDeepLink_def encode_scenario_pickup encode_scenario_destination
      link_for_def flip: js_append)

lemma n99_link:
  assumes "app_id app = js ''99''"
  shows "createDeepLink platform app scenario_pickup scenario_destination
    = Inr (js ''taxis99://call?'' @ js ''pickup_latitude=-22.9068'' @ js ''&''
           @ js ''pickup_longitude=-43.1729'' @ js ''&pickup_title=''
           @ js ''Rua%20Senador%20Vergueiro%20218%2C%20Rio%20de%20Janeiro'' @ js ''&''
           @ js ''dropoff_latitude=-22.9249'' @ js ''&'' @ js ''dropoff_longitude=-43.1777''
           @ js ''&dropoff_title='' @ js ''Rua%20do%20Catete%20214%2C%20Rio%20de%20Janeiro'')"
proof -
  have "js ''99'' \<noteq> js ''uber''" by (simp add: js_def)
  with assms show ?thesis
    by (simp add: createDeepLink_def encode_scenario_pickup encode_scenario_destination
      link_for_def scenario_coordinates flip: js_append)
qed

lemma sublist_skip: "sublist xs ys \<Longrightarrow> sublist xs (ps @ ys)"
proof -
  assume "sublist xs ys"
  then obtain a b where "ys = a @ xs @ b" by (auto simp: sublist_def)
  then have "ps @ ys = (ps @ a) @ xs @ b" by simp
  then show ?thesis unfolding sublist_def by blast
qed

lemma sublist_here: "sublist xs (xs @ ss)"
  using sublist_appendI [of xs "[]" ss] by simp

lemma sublist_end: "sublist xs xs"
  by simp

lemma catalogue_ids:
  "app_id catalogue_uber = js ''uber''" "app_id catalogue_99 = js ''99''"
  by (simp_all add: catalogue_uber_def catalogue_99_def DEFAULT_RIDE_APPS_def mk_app_def js_def)

text \<open>
  Claim C3. For the route of scenarios A and B (pickup "Rua Senador Vergueiro 218, Rio de
  Janeiro" at -22.9068, -43.1729; destination "Rua do Catete 214, Rio de Janeiro" at
  -22.9249, -43.1777), on every platform but the web, \<open>createDeepLink\<close> applied to a
  provider with id \<open>uber\<close> returns a URI that contains \<open>action=setPickup\<close> and both
  addresses as \<open>encodeURIComponent\<close> writes them, and applied to a provider with id
  \<open>99\<close> returns a URI that contains the four coordinates as
  \<open>pickup_latitude=-22.9068\<close>, \<open>pickup_longitude=-43.1729\<close>,
  \<open>dropoff_latitude=-22.9249\<close> and \<open>dropoff_longitude=-43.1777\<close>.
\<close>

theorem C3_scenario_links:
  assumes "platform \<noteq> Web" and "app_id uber = js ''uber''" and "app_id ninety_nine = js ''99''"
  shows "(\<exists>uri pickupAddress destinationAddress.
            createDeepLink platform uber scenario_pickup scenario_destination = Inr uri
          \<and> encodeURIComponent (address scenario_pickup) = Inr pickupAddress
          \<and> pickupAddress = js ''Rua%20Senador%20Vergueiro%20218%2C%20Rio%20de%20Janeiro''
          \<and> encodeURIComponent (address scenario_destination) = Inr destinationAddress
          \<and> destinationAddress = js ''Rua%20do%20Catete%20214%2C%20Rio%20de%20Janeiro''
          \<and> sublist (js ''action=setPickup'') uri
          \<and> sublist pickupAddress uri \<and> sublist destinationAddress uri)
       \<and> (\<exists>uri.
            createDeepLink platform ninety_nine scenario_pickup scenario_destination = Inr uri
          \<and> sublist (js ''pickup_latitude=-22.9068'') uri
          \<and> sublist (js ''pickup_longitude=-43.1729'') uri
          \<and> sublist (js ''dropoff_latitude=-22.9249'') uri
          \<and> sublist (js ''dropoff_longitude=-43.1777'') uri)"
  (is "?A \<and> ?B")
proof -
  let ?pa = "js ''Rua%20Senador%20Vergueiro%20218%2C%20Rio%20de%20Janeiro''"
  let ?da = "js ''Rua%20do%20Catete%20214%2C%20Rio%20de%20Janeiro''"
  let ?u = "js ''uber://?'' @ js ''action=setPickup'' @ js ''&pickup[formatted_address]=''
            @ ?pa @ js ''&dropoff[formatted_address]='' @ ?da"
  have u: "createDeepLink platform uber scenario_pickup scenario_destination = Inr ?u"
    by (rule uber_link [OF assms(1,2)])
  have u1: "sublist (js ''action=setPickup'') ?u"
    and u2: "sublist ?pa ?u" and u3: "sublist ?da ?u"
    by (intro sublist_skip sublist_here sublist_end)+
  have a: ?A
    apply (rule exI [of _ ?u], rule exI [of _ ?pa], rule exI [of _ ?da])
    apply (simp only: u u1 u2 u3 encode_scenario_pickup encode_scenario_destination)
    done
  let ?n = "js ''taxis99://call?'' @ js ''pickup_latitude=-22.9068'' @ js ''&''
           @ js ''pickup_longitude=-43.1729'' @ js ''&pickup_title=''
           @ ?pa @ js ''&''
           @ js ''dropoff_latitude=-22.9249'' @ js ''&'' @ js ''dropoff_longitude=-43.1777''
           @ js ''&dropoff_title='' @ ?da"
  have n: "createDeepLink platform ninety_nine scenario_pickup scenario_destination = Inr ?n"
    by (rule n99_link [OF assms(3)])
  have n1: "sublist (js ''pickup_latitude=-22.9068'') ?n"
    and n2: "sublist (js ''pickup_longitude=-43.1729'') ?n"
    and n3: "sublist (js ''dropoff_latitude=-22.9249'') ?n"
    and n4: "sublist (js ''dropoff_longitude=-43.1777'') ?n"
    by (intro sublist_skip sublist_here sublist_end)+
  have b: ?B
    apply (rule exI [of _ ?n])
    apply (simp only: n n1 n2 n3 n4)
    done
  from a b show ?thesis by (rule conjI)
qed

text \<open>Claim C3 on Android, for the catalogue's own \<open>uber\<close> and \<open>99\<close> entries.\<close>

theorem C3_witness:
  "Android \<noteq> Web
   \<and> (\<exists>uri. createDeepLink Android catalogue_uber scenario_pickup scenario_destination
              = Inr uri
            \<and> sublist (js ''action=setPickup'') uri
            \<and> sublist (js ''Rua%20Senador%20Vergueiro%20218%2C%20Rio%20de%20Janeiro'') uri
            \<and> sublist (js ''Rua%20do%20Catete%20214%2C%20Rio%20de%20Janeiro'') uri)
   \<and> (\<exists>uri. createDeepLink Android catalogue_99 scenario_pickup scenario_destination
              = Inr uri
            \<and> sublist (js ''pickup_latitude=-22.9068'') uri
            \<and> sublist (js ''pickup_longitude=-43.1729'') uri
            \<and> sublist (js ''dropoff_latitude=-22.9249'') uri
            \<and> sublist (js ''dropoff_longitude=-43.1777'') uri)"
proof -
  have native: "Android \<noteq> Web" by simp
  from C3_scenario_links [OF native catalogue_ids] native show ?thesis by blast
qed

section \<open>The launch orchestrator\<close>

text \<open>
  Claim C4. On a platform other than the web, when the link has been built and
  \<open>Linking.canOpenURL\<close> answers \<open>false\<close> for it, \<open>openRideApp\<close> asks that one
  question, shows the not-installed prompt with a cancel button and a store button, and
  clears \<open>isLoading\<close>; pressing the store button opens the provider's
  \<open>playStoreUrl\<close>; \<open>Linking.openURL\<close> is not called by the dispatch.
\<close>

theorem C4_cannot_open_prompts_install:
  assumes "OS P \<noteq> Web"
    and "createDeepLink (OS P) app pickup destination = Inr deepLink"
    and "Linking_canOpenURL P deepLink = Inr False"
  shows "openRideApp P app pickup destination =
           [SetIsLoading True, Call_canOpenURL deepLink,
            Alert_alert RideApp_notInstalled
              [Cancel, OpenPlayStore (Via_Linking_openURL (playStoreUrl app))],
            SetIsLoading False]
       \<and> press (OpenPlayStore (Via_Linking_openURL (playStoreUrl app)))
           = [Call_openURL (playStoreUrl app)]
       \<and> (\<forall>u. Call_openURL u \<notin> set (openRideApp P app pickup destination))"
  using assms by (simp add: openRideApp_def open_mobile_def store_prompt_def)

lemma uber_link_scenario:
  "createDeepLink Android catalogue_uber scenario_pickup scenario_destination
     = Inr (js ''uber://?action=setPickup&pickup[formatted_address]=Rua%20Senador%20Vergueiro%20218%2C%20Rio%20de%20Janeiro&dropoff[formatted_address]=Rua%20do%20Catete%20214%2C%20Rio%20de%20Janeiro'')"
  using uber_link [of Android catalogue_uber] catalogue_ids(1)
  by (simp flip: js_append)

text \<open>Claim C4 for Uber on a phone without the app.\<close>

theorem C4_witness:
  "OS android_without_apps \<noteq> Web
   \<and> Linking_canOpenURL android_without_apps
       (js ''uber://?action=setPickup&pickup[formatted_address]=Rua%20Senador%20Vergueiro%20218%2C%20Rio%20de%20Janeiro&dropoff[formatted_address]=Rua%20do%20Catete%20214%2C%20Rio%20de%20Janeiro'')
       = Inr False
   \<and> openRideApp android_without_apps catalogue_uber scenario_pickup scenario_destination =
       [SetIsLoading True,
        Call_canOpenURL (js ''uber://?action=setPickup&pickup[formatted_address]=Rua%20Senador%20Vergueiro%20218%2C%20Rio%20de%20Janeiro&dropoff[formatted_address]=Rua%20do%20Catete%20214%2C%20Rio%20de%20Janeiro''),
        Alert_alert RideApp_notInstalled
          [Cancel, OpenPlayStore (Via_Linking_openURL (js ''market://details?id=com.ubercab''))],
        SetIsLoading False]"
proof -
  have os: "OS android_without_apps \<noteq> Web" "OS android_without_apps = Android"
    by (simp_all add: android_without_apps_def)
  have no: "Linking_canOpenURL android_without_apps u = Inr False" for u
    by (simp add: android_without_apps_def)
  have store: "playStoreUrl catalogue_uber = js ''market://details?id=com.ubercab''"
    by (simp add: catalogue_uber_def catalogue_99_def DEFAULT_RIDE_APPS_def mk_app_def js_def)
  from C4_cannot_open_prompts_install [OF os(1) _ no, of catalogue_uber scenario_pickup
      scenario_destination] uber_link_scenario os no store
  show ?thesis by simp
qed

lemma unknown_link:
  assumes "i \<notin> set createDeepLink_ids"
  shows "link_for platform i pickup destination a b = []"
  using assms by (simp add: link_for_def createDeepLink_ids_def Let_def)

lemma unknown_app_id: "app_id unknown_app \<notin> set createDeepLink_ids"
  by (simp add: unknown_app_def mk_app_def createDeepLink_ids_def js_def)

text \<open>
  Claim C5 says that the dispatch never tries to open the empty URI that the builder
  returns for an unknown provider. \<open>openRideApp\<close> has no check of the built link: on a
  phone that answers \<open>true\<close> to every \<open>canOpenURL\<close>, the empty URI is passed to
  \<open>Linking.openURL\<close>.
\<close>

theorem C5_sentinel_opened:
  "createDeepLink Android unknown_app scenario_pickup scenario_destination = Inr []
   \<and> openRideApp android_opening_anything unknown_app scenario_pickup scenario_destination
       = [SetIsLoading True, Call_canOpenURL [], Call_openURL [], SetIsLoading False]"
proof -
  have os: "OS android_opening_anything = Android"
    by (simp add: android_opening_anything_def)
  have link: "createDeepLink Android unknown_app scenario_pickup scenario_destination = Inr []"
    using unknown_app_id
    by (simp add: createDeepLink_def unknown_link encode_scenario_pickup
        encode_scenario_destination)
  have "app_id unknown_app \<notin> set route_prefilled"
    by (simp add: route_prefilled_def unknown_app_def mk_app_def js_def)
  with link show ?thesis
    by (simp add: openRideApp_def os open_mobile_def android_opening_anything_def)
qed

text \<open>
  Claim C5, as the code has it. For a provider id outside the \<open>switch\<close> and addresses
  that \<open>encodeURIComponent\<close> accepts, \<open>createDeepLink\<close> returns the empty string.
  \<open>openRideApp\<close> handles it like any other link. On the web it makes no platform call
  and shows the not-supported alert, whose store button opens the store page in a new
  tab. Elsewhere it asks \<open>canOpenURL\<close> about the empty URI: when the answer is \<open>true\<close>
  it calls \<open>openURL\<close> on the empty URI, and shows the opening-play-store prompt if that
  call rejects; when the answer is \<open>false\<close> it shows the not-installed prompt; when the
  question itself rejects it shows the opening-play-store prompt. Every prompt offers
  cancel and the provider's \<open>playStoreUrl\<close>; \<open>isLoading\<close> is set before and cleared
  after.
\<close>

theorem C5_unknown_provider:
  assumes "app_id app \<notin> set createDeepLink_ids"
    and "encodeURIComponent (address pickup) = Inr a"
    and "encodeURIComponent (address destination) = Inr b"
  shows "createDeepLink (OS P) app pickup destination = Inr []
       \<and> openRideApp P app pickup destination =
           SetIsLoading True #
           (if OS P = Web then
              [Alert_alert RideApp_webNotSupported
                 [Cancel,
                  OpenPlayStore
                    (Via_window_open
                       (String_replace (js ''market://'')
                          (js ''https://play.google.com/store/apps/'') (playStoreUrl app)))]]
            else
              Call_canOpenURL [] #
              (case Linking_canOpenURL P [] of
                 Inl e \<Rightarrow>
                   [Alert_alert RideApp_openingPlayStore
                      [Cancel, OpenPlayStore (Via_Linking_openURL (playStoreUrl app))]]
               | Inr canOpen \<Rightarrow>
                   if canOpen then
                     Call_openURL [] #
                     (case Linking_openURL P [] of
                        Some e \<Rightarrow>
                          [Alert_alert RideApp_openingPlayStore
                             [Cancel, OpenPlayStore (Via_Linking_openURL (playStoreUrl app))]]
                      | None \<Rightarrow> [])
                   else
                     [Alert_alert RideApp_notInstalled
                        [Cancel, OpenPlayStore (Via_Linking_openURL (playStoreUrl app))]]))
           @ [SetIsLoading False]
       \<and> platform_calls (openRideApp P app pickup destination) =
           (if OS P = Web then []
            else Call_canOpenURL [] #
                 (if Linking_canOpenURL P [] = Inr True then [Call_openURL []] else []))"
proof -
  have link: "createDeepLink (OS P) app pickup destination = Inr []"
    using assms by (simp add: createDeepLink_def unknown_link)
  have not_uber: "app_id app \<noteq> js ''uber''"
    using assms(1) by (auto simp: createDeepLink_ids_def)
  have not_prefilled: "app_id app \<notin> set route_prefilled"
    using assms(1) by (auto simp: createDeepLink_ids_def route_prefilled_def)
  have effects: "openRideApp P app pickup destination =
           SetIsLoading True #
           (if OS P = Web then
              [Alert_alert RideApp_webNotSupported
                 [Cancel,
                  OpenPlayStore
                    (Via_window_open
                       (String_replace (js ''market://'')
                          (js ''https://play.google.com/store/apps/'') (playStoreUrl app)))]]
            else
              Call_canOpenURL [] #
              (case Linking_canOpenURL P [] of
                 Inl e \<Rightarrow>
                   [Alert_alert RideApp_openingPlayStore
                      [Cancel, OpenPlayStore (Via_Linking_openURL (playStoreUrl app))]]
               | Inr canOpen \<Rightarrow>
                   if canOpen then
                     Call_openURL [] #
                     (case Linking_openURL P [] of
                        Some e \<Rightarrow>
                          [Alert_alert RideApp_openingPlayStore
                             [Cancel, OpenPlayStore (Via_Linking_openURL (playStoreUrl app))]]
                      | None \<Rightarrow> [])
                   else
                     [Alert_alert RideApp_notInstalled
                        [Cancel, OpenPlayStore (Via_Linking_openURL (playStoreUrl app))]]))
           @ [SetIsLoading False]"
    using not_uber not_prefilled
    by (simp add: openRideApp_def link open_web_def open_mobile_def store_prompt_def
        split: sum.split option.split)
  have calls: "platform_calls (openRideApp P app pickup destination) =
           (if OS P = Web then []
            else Call_canOpenURL [] #
                 (if Linking_canOpenURL P [] = Inr True then [Call_openURL []] else []))"
    unfolding effects
    by (simp add: platform_calls_def split: sum.split option.split)
  from link effects calls show ?thesis by blast
qed

text \<open>Claim C5 as amended, for an unknown provider on a phone without apps and on the web.\<close>

theorem C5_witness:
  "app_id unknown_app \<notin> set createDeepLink_ids
   \<and> createDeepLink (OS android_without_apps) unknown_app scenario_pickup scenario_destination
       = Inr []
   \<and> openRideApp android_without_apps unknown_app scenario_pickup scenario_destination
       = [SetIsLoading True, Call_canOpenURL [],
          Alert_alert RideApp_notInstalled
            [Cancel,
             OpenPlayStore (Via_Linking_openURL (js ''market://details?id=com.cabify.rider''))],
          SetIsLoading False]
   \<and> openRideApp web_browser unknown_app scenario_pickup scenario_destination
       = [SetIsLoading True,
          Alert_alert RideApp_webNotSupported
            [Cancel,
             OpenPlayStore
               (Via_window_open
                  (js ''https://play.google.com/store/apps/details?id=com.cabify.rider''))],
          SetIsLoading False]"
proof -
  have store: "playStoreUrl unknown_app = js ''market://details?id=com.cabify.rider''"
    by (simp add: unknown_app_def mk_app_def js_def)
  have replaced: "String_replace (js ''market://'') (js ''https://play.google.com/store/apps/'')
                    (js ''market://details?id=com.cabify.rider'')
                  = js ''https://play.google.com/store/apps/details?id=com.cabify.rider''"
    by (simp add: js_def)
  from C5_unknown_provider [OF unknown_app_id encode_scenario_pickup
      encode_scenario_destination, of android_without_apps]
    C5_unknown_provider [OF unknown_app_id encode_scenario_pickup
      encode_scenario_destination, of web_browser]
    unknown_app_id
  show ?thesis
    by (simp add: android_without_apps_def web_browser_def store replaced)
qed

text \<open>
  Claim C1 says that \<open>openRideApp\<close> itself refuses a route with an empty address,
  without any platform call. It does not look at the route: with an empty pickup address
  it builds the Uber link and asks \<open>Linking.canOpenURL\<close> about it.
\<close>

theorem C1_empty_address_dispatched:
  "address (scenario_pickup\<lparr>address := []\<rparr>) = []
   \<and> platform_calls
       (openRideApp android_without_apps catalogue_uber
          (scenario_pickup\<lparr>address := []\<rparr>) scenario_destination)
     = [Call_canOpenURL
          (js ''uber://?action=setPickup&pickup[formatted_address]=&dropoff[formatted_address]=Rua%20do%20Catete%20214%2C%20Rio%20de%20Janeiro'')]"
proof -
  have "createDeepLink Android catalogue_uber (scenario_pickup\<lparr>address := []\<rparr>)
          scenario_destination
        = Inr (js ''uber://?action=setPickup&pickup[formatted_address]='' @ []
               @ js ''&dropoff[formatted_address]=''
               @ js ''Rua%20do%20Catete%20214%2C%20Rio%20de%20Janeiro'')"
    by (simp add: createDeepLink_def encode_empty encode_scenario_destination link_for_def
        catalogue_ids)
  then show ?thesis
    by (simp add: openRideApp_def open_mobile_def platform_calls_def store_prompt_def
        android_without_apps_def flip: js_append)
qed

text \<open>
  Claim C1, as the code has it: the route is validated by the screen's handler. When an
  address is blank (empty after \<open>trim\<close>) or the coordinates of an endpoint are missing,
  \<open>handleRideAppPress\<close> shows the matching error alert and nothing else: \<open>openRideApp\<close>
  is not called and no platform call is made.
\<close>

theorem C1_validated_by_the_screen:
  assumes "String_trim (pickupAddress scr) = [] \<or> String_trim (destinationAddress scr) = []
           \<or> pickupCoords scr = None \<or> destinationCoords scr = None"
  shows "handleRideAppPress P scr appIndex =
           Inr [Alert_alert
                  (if String_trim (pickupAddress scr) = []
                      \<or> String_trim (destinationAddress scr) = []
                   then Alert_requiredAddresses else Alert_coordinatesRequired) []]
       \<and> platform_calls
           (case handleRideAppPress P scr appIndex of Inl e \<Rightarrow> [] | Inr es \<Rightarrow> es) = []"
  using assms
  by (auto simp: handleRideAppPress_def platform_calls_def split: option.splits prod.splits)

text \<open>Claim C1 as amended, for a destination field of two spaces.\<close>

theorem C1_witness:
  "String_trim (destinationAddress screen_without_destination) = []
   \<and> handleRideAppPress android_without_apps screen_without_destination 0
       = Inr [Alert_alert Alert_requiredAddresses []]"
proof -
  have blank: "String_trim (destinationAddress screen_without_destination) = []"
    by (simp add: screen_without_destination_def String_trim_def is_white_space_def js_def)
  then have "String_trim (pickupAddress screen_without_destination) = []
     \<or> String_trim (destinationAddress screen_without_destination) = []
     \<or> pickupCoords screen_without_destination = None
     \<or> destinationCoords screen_without_destination = None"
    by simp
  from C1_validated_by_the_screen [OF this, of android_without_apps 0] blank
  show ?thesis by simp
qed

section \<open>The registry\<close>

subsection \<open>Merging the stored overrides\<close>

lemma get_prop_Obj:
  "get_prop (Obj kvs) k = Inr (case map_of kvs k of Some x \<Rightarrow> x | None \<Rightarrow> Undefined)"
  by (simp add: get_prop_def)

lemma find_by_id_overrides:
  assumes "list_all (\<lambda>v. v \<noteq> Null \<and> v \<noteq> Undefined) xs"
  shows "\<exists>v. find_by_id i xs = Inr v
           \<and> (case overrides_of xs i of
                None \<Rightarrow> v = Undefined
              | Some e \<Rightarrow> truthy v \<and> get_prop v (js ''enabled'') = Inr e)"
  using assms
proof (induction xs)
  case Nil
  then show ?case by simp
next
  case (Cons x xs)
  then have ih: "\<exists>v. find_by_id i xs = Inr v
           \<and> (case overrides_of xs i of
                None \<Rightarrow> v = Undefined
              | Some e \<Rightarrow> truthy v \<and> get_prop v (js ''enabled'') = Inr e)"
    by simp
  from Cons.prems have x: "x \<noteq> Null" "x \<noteq> Undefined" by simp_all
  show ?case
  proof (cases x)
    case (Obj kvs)
    show ?thesis
    proof (cases "map_of kvs (js ''id'') = Some (Str i)")
      case True
      then show ?thesis using Obj by (simp add: get_prop_Obj)
    next
      case False
      then have "find_by_id i (x # xs) = find_by_id i xs"
        using Obj by (simp add: get_prop_Obj split: option.split)
      moreover from False have "overrides_of (x # xs) i = overrides_of xs i"
        using Obj by (auto split: option.split jsval.split)
      ultimately show ?thesis using ih by simp
    qed
  qed (use x ih in \<open>simp_all add: get_prop_def\<close>)
qed

lemma merge_app_spec:
  assumes "list_all (\<lambda>v. v \<noteq> Null \<and> v \<noteq> Undefined) xs"
  shows "merge_app (Arr xs) d
           = Inr (case overrides_of xs (app_id d) of Some e \<Rightarrow> d\<lparr>enabled := e\<rparr> | None \<Rightarrow> d)"
proof -
  from find_by_id_overrides [OF assms, of "app_id d"]
  obtain v where v: "find_by_id (app_id d) xs = Inr v"
    "case overrides_of xs (app_id d) of
       None \<Rightarrow> v = Undefined
     | Some e \<Rightarrow> truthy v \<and> get_prop v (js ''enabled'') = Inr e"
    by blast
  then show ?thesis
    by (cases "overrides_of xs (app_id d)") (simp_all add: merge_app_def)
qed

lemma map_throwing_total:
  assumes "\<And>x. f x = Inr (g x)"
  shows "map_throwing f xs = Inr (map g xs)"
  by (induction xs) (simp_all add: assms)

lemma load_merge_spec:
  assumes "list_all (\<lambda>v. v \<noteq> Null \<and> v \<noteq> Undefined) xs"
  shows "load_try (Inr (Some (JsonText (Arr xs))))
           = Inr (Some (merge_spec DEFAULT_RIDE_APPS (overrides_of xs)))"
  by (simp add: load_try_def merge_spec_def
      map_throwing_total [of "merge_app (Arr xs)", OF merge_app_spec [OF assms]])

text \<open>
  Claim C2. When the stored value is an array without \<open>null\<close> elements,
  \<open>loadAppConfiguration\<close> sets the list to the merge of the specification: it has as
  many entries as \<open>DEFAULT_RIDE_APPS\<close>, with the same ids in the same order; the
  \<open>enabled\<close> of an entry is the stored override's when the array has an override for
  its id and the default's otherwise; every other field is the default's.
\<close>

theorem C2_load_merges_overrides:
  assumes "list_all (\<lambda>v. v \<noteq> Null \<and> v \<noteq> Undefined) xs"
  shows "\<exists>merged.
           loadAppConfiguration (Inr (Some (JsonText (Arr xs)))) s
             = (Inr (), s\<lparr>rideApps := merged, loading := False\<rparr>)
         \<and> merged = merge_spec DEFAULT_RIDE_APPS (overrides_of xs)
         \<and> length merged = length DEFAULT_RIDE_APPS
         \<and> map app_id merged = map app_id DEFAULT_RIDE_APPS
         \<and> (\<forall>k < length DEFAULT_RIDE_APPS.
              enabled (merged ! k)
                = (case overrides_of xs (app_id (DEFAULT_RIDE_APPS ! k)) of
                     Some e \<Rightarrow> e
                   | None \<Rightarrow> enabled (DEFAULT_RIDE_APPS ! k))
            \<and> (merged ! k)\<lparr>enabled := enabled (DEFAULT_RIDE_APPS ! k)\<rparr>
                = DEFAULT_RIDE_APPS ! k)"
proof -
  let ?m = "merge_spec DEFAULT_RIDE_APPS (overrides_of xs)"
  have 1: "loadAppConfiguration (Inr (Some (JsonText (Arr xs)))) s
             = (Inr (), s\<lparr>rideApps := ?m, loading := False\<rparr>)"
    by (simp add: loadAppConfiguration_def load_merge_spec [OF assms])
  have 2: "length ?m = length DEFAULT_RIDE_APPS"
    by (simp add: merge_spec_def)
  have 3: "map app_id (merge_spec D ov) = map app_id D" for D ov
    by (induction D) (simp_all add: merge_spec_def split: option.split)
  have 4: "enabled (merge_spec D ov ! k)
             = (case ov (app_id (D ! k)) of Some e \<Rightarrow> e | None \<Rightarrow> enabled (D ! k))
         \<and> (merge_spec D ov ! k)\<lparr>enabled := enabled (D ! k)\<rparr> = D ! k"
    if "k < length D" for D ov k
    using that by (simp add: merge_spec_def split: option.split)
  from 1 2 3 4 show ?thesis by blast
qed

text \<open>Claim C2 for stored overrides of \<open>uber\<close> (off) and \<open>bolt\<close> (on).\<close>

theorem C2_witness:
  "list_all (\<lambda>v. v \<noteq> Null \<and> v \<noteq> Undefined) stored_overrides
   \<and> map (\<lambda>app. (app_id app, enabled app))
       (rideApps (snd (loadAppConfiguration (Inr (Some (JsonText (Arr stored_overrides))))
                         useAppManager_initial)))
     = [(js ''uber'', Bool False), (js ''99'', Bool True), (js ''lyft'', Bool True),
        (js ''taxirio'', Bool False), (js ''indriver'', Bool False), (js ''bolt'', Bool True),
        (js ''grab'', Bool False), (js ''careem'', Bool False), (js ''ola'', Bool False),
        (js ''yandex'', Bool False)]"
proof -
  have ok: "list_all (\<lambda>v. v \<noteq> Null \<and> v \<noteq> Undefined) stored_overrides"
    by (simp add: stored_overrides_def)
  have ov: "overrides_of stored_overrides
              = [js ''bolt'' \<mapsto> Bool True, js ''uber'' \<mapsto> Bool False]"
    by (simp add: stored_overrides_def js_def)
  from C2_load_merges_overrides [OF ok, of useAppManager_initial]
  have "rideApps (snd (loadAppConfiguration (Inr (Some (JsonText (Arr stored_overrides))))
                         useAppManager_initial))
        = merge_spec DEFAULT_RIDE_APPS (overrides_of stored_overrides)"
    by auto
  then show ?thesis
    using ok by (simp add: ov merge_spec_def DEFAULT_RIDE_APPS_def mk_app_def js_def)
qed

subsection \<open>Failing reads\<close>

text \<open>
  \<open>loadAppConfiguration\<close> never rejects, whatever the read returns. When the body of
  its \<open>try\<close> throws, or finds no text to parse, the list is left as it was and
  \<open>loading\<close> is cleared; at mount the list is \<open>DEFAULT_RIDE_APPS\<close>, and stays so.
\<close>

lemma load_never_rejects:
  "fst (loadAppConfiguration r s) = Inr ()
   \<and> (load_try r = Inl e \<or> load_try r = Inr None \<longrightarrow>
        snd (loadAppConfiguration r s) = s\<lparr>loading := False\<rparr>)
   \<and> (load_try r = Inl e \<or> load_try r = Inr None \<longrightarrow>
        rideApps (snd (loadAppConfiguration r useAppManager_initial)) = DEFAULT_RIDE_APPS)"
  by (simp add: loadAppConfiguration_def useAppManager_initial_def split: sum.split option.split)

text \<open>
  The reads that throw: a rejected read, an unparseable text, a value that is no array, an
  array whose first element is \<open>null\<close>.
\<close>

lemma load_try_errors:
  "load_try (Inl e) = Inl e"
  "load_try (Inr (Some BadText)) = Inl SyntaxError"
  "load_try (Inr (Some (JsonText (Obj kvs)))) = Inl TypeError"
  "load_try (Inr (Some (JsonText (Str t)))) = Inl TypeError"
  "load_try (Inr (Some (JsonText (Num n)))) = Inl TypeError"
  "load_try (Inr (Some (JsonText (Bool b)))) = Inl TypeError"
  "load_try (Inr (Some (JsonText Null))) = Inl TypeError"
  "load_try (Inr (Some (JsonText (Arr (Null # xs))))) = Inl TypeError"
  by (simp_all add: load_try_def DEFAULT_RIDE_APPS_def merge_app_def get_prop_def)

text \<open>
  Claim C7: for every stored value, \<open>loadAppConfiguration\<close> never propagates a failure,
  and on any read or parse error it yields exactly the compiled-in default list; the
  comment in its \<open>catch\<close> says the same ("Don't throw, just use defaults"). The
  \<open>catch\<close> sets nothing. On a reload after \<open>uber\<close> has been switched off, when the
  read rejects or the stored text does not parse, the promise resolves and the list keeps
  \<open>uber\<close> switched off: it is not \<open>DEFAULT_RIDE_APPS\<close>.
\<close>

theorem C7_failed_reload_keeps_toggles:
  "fst (loadAppConfiguration (Inl PlatformError) toggled_uber) = Inr ()
   \<and> rideApps (snd (loadAppConfiguration (Inl PlatformError) toggled_uber))
       = (hd DEFAULT_RIDE_APPS)\<lparr>enabled := Bool False\<rparr> # tl DEFAULT_RIDE_APPS
   \<and> rideApps (snd (loadAppConfiguration (Inr (Some BadText)) toggled_uber))
       = (hd DEFAULT_RIDE_APPS)\<lparr>enabled := Bool False\<rparr> # tl DEFAULT_RIDE_APPS
   \<and> (hd DEFAULT_RIDE_APPS)\<lparr>enabled := Bool False\<rparr> # tl DEFAULT_RIDE_APPS
       \<noteq> DEFAULT_RIDE_APPS"
  by (simp add: loadAppConfiguration_def load_try_def toggled_uber_def toggleAppEnabled_def
      saveAppConfiguration_def useAppManager_initial_def DEFAULT_RIDE_APPS_def mk_app_def js_def
      Let_def)

subsection \<open>Failing writes\<close>

text \<open>
  Claim C6 says that after a failed write the list in memory has the flag flipped.
  \<open>saveAppConfiguration\<close> calls \<open>setRideApps\<close> after the awaited write only: when
  the write of a toggle of \<open>uber\<close> fails, the error reaches the caller and \<open>uber\<close> is
  still enabled.
\<close>

theorem C6_toggle_lost_on_failed_write:
  "fst (toggleAppEnabled (Some PlatformError) [] (js ''uber'') useAppManager_initial)
     = Inl PlatformError
   \<and> app_id (hd (rideApps useAppManager_initial)) = js ''uber''
   \<and> enabled (hd (rideApps useAppManager_initial)) = Bool True
   \<and> enabled (hd (rideApps (fst (snd (toggleAppEnabled (Some PlatformError) [] (js ''uber'')
                                         useAppManager_initial)))))
     = Bool True"
  by (simp add: toggleAppEnabled_def saveAppConfiguration_def useAppManager_initial_def
      DEFAULT_RIDE_APPS_def mk_app_def)

text \<open>
  Claim C6, as the code has it. When the write of \<open>toggleAppEnabled\<close> fails, the error
  is thrown to the caller, the hook's state is unchanged (the toggle is not applied) and
  the only effect is the attempted write of the toggled list.
\<close>

theorem C6_failed_write_leaves_state:
  "toggleAppEnabled (Some e) ls appId s
     = (Inl e, s,
        [Storage_setItem APP_MANAGER_STORAGE_KEY
           (map (\<lambda>app. if app_id app = appId
                        then app\<lparr>enabled := Bool (\<not> truthy (enabled app))\<rparr> else app)
              (rideApps s))])"
  by (simp add: toggleAppEnabled_def saveAppConfiguration_def)

text \<open>Claim C6 as amended, for a failed toggle of \<open>uber\<close> at mount.\<close>

theorem C6_witness:
  "toggleAppEnabled (Some PlatformError) [1, 2] (js ''uber'') useAppManager_initial
     = (Inl PlatformError, useAppManager_initial,
        [Storage_setItem APP_MANAGER_STORAGE_KEY
           ((hd DEFAULT_RIDE_APPS)\<lparr>enabled := Bool False\<rparr> # tl DEFAULT_RIDE_APPS)])"
  using C6_failed_write_leaves_state [of PlatformError "[1, 2]" "js ''uber''" useAppManager_initial]
  by (simp add: useAppManager_initial_def DEFAULT_RIDE_APPS_def mk_app_def js_def)

subsection \<open>The order of the enabled providers\<close>

text \<open>
  Every operation keeps the ids of the list: after any history of toggles, resets and
  reloads from mount, the list in memory has the ids of \<open>DEFAULT_RIDE_APPS\<close>, in the
  catalogue's order.
\<close>

lemma merge_app_id: "merge_app sc d = Inr d' \<Longrightarrow> app_id d' = app_id d"
  by (auto simp: merge_app_def split: jsval.splits sum.splits if_splits)

lemma map_throwing_ids:
  "map_throwing (merge_app sc) D = Inr m \<Longrightarrow> map app_id m = map app_id D"
proof (induction D arbitrary: m)
  case Nil
  then show ?case by simp
next
  case (Cons d D)
  then show ?case
    by (auto split: sum.splits dest: merge_app_id)
qed

lemma load_ids:
  assumes "map app_id (rideApps s) = map app_id DEFAULT_RIDE_APPS"
  shows "map app_id (rideApps (snd (loadAppConfiguration r s))) = map app_id DEFAULT_RIDE_APPS"
  using assms
  by (auto simp: loadAppConfiguration_def load_try_def
      split: sum.splits option.splits stored_text.splits dest: map_throwing_ids)

lemma toggle_ids:
  "map app_id (rideApps (fst (snd (toggleAppEnabled w ls i s)))) = map app_id (rideApps s)"
  by (cases w) (simp_all add: toggleAppEnabled_def saveAppConfiguration_def comp_def Let_def)

lemma reset_ids:
  assumes "map app_id (rideApps s) = map app_id DEFAULT_RIDE_APPS"
  shows "map app_id (rideApps (fst (snd (resetToDefaults w ls s)))) = map app_id DEFAULT_RIDE_APPS"
  using assms by (cases w) (simp_all add: resetToDefaults_def saveAppConfiguration_def)

lemma apply_op_ids:
  assumes "map app_id (rideApps s) = map app_id DEFAULT_RIDE_APPS"
  shows "map app_id (rideApps (apply_op ls op s)) = map app_id DEFAULT_RIDE_APPS"
  using assms by (cases op) (simp_all add: toggle_ids reset_ids load_ids)

lemma run_ops_ids:
  assumes "map app_id (rideApps s) = map app_id DEFAULT_RIDE_APPS"
  shows "map app_id (rideApps (run_ops ls ops s)) = map app_id DEFAULT_RIDE_APPS"
  using assms by (induction ops arbitrary: s) (simp_all add: apply_op_ids)









subsection \<open>Notifications\<close>

text \<open>
  Claim C9. The effects of \<open>toggleAppEnabled\<close> and of \<open>resetToDefaults\<close> are the
  awaited write followed, when it has succeeded, by one call of every subscribed
  listener in subscription order, and by nothing when it has failed: no listener is
  called before the write, and none after a failed write.
\<close>

theorem C9_notify_after_write:
  "(\<exists>updatedApps.
      snd (snd (toggleAppEnabled w ls appId s))
        = Storage_setItem APP_MANAGER_STORAGE_KEY updatedApps
          # (if w = None then map Listener_called ls else []))
   \<and> snd (snd (resetToDefaults w ls s))
       = Storage_setItem APP_MANAGER_STORAGE_KEY DEFAULT_RIDE_APPS
         # (if w = None then map Listener_called ls else [])"
  by (cases w)
     (simp_all add: toggleAppEnabled_def resetToDefaults_def saveAppConfiguration_def emit_def
        Let_def)

text \<open>Claim C9 for a reset with three subscribers, persisted and not.\<close>

theorem C9_witness:
  "snd (snd (resetToDefaults None [3, 1, 2] toggled_uber))
     = [Storage_setItem APP_MANAGER_STORAGE_KEY DEFAULT_RIDE_APPS,
        Listener_called 3, Listener_called 1, Listener_called 2]
   \<and> snd (snd (resetToDefaults (Some PlatformError) [3, 1, 2] toggled_uber))
     = [Storage_setItem APP_MANAGER_STORAGE_KEY DEFAULT_RIDE_APPS]"
  using C9_notify_after_write [of None "[3, 1, 2]" "js ''uber''" toggled_uber]
    C9_notify_after_write [of "Some PlatformError" "[3, 1, 2]" "js ''uber''" toggled_uber]
  by simp

text \<open>
  Claim C10. For an id that no provider of the list has, \<open>toggleAppEnabled\<close> with a
  successful write resolves, leaves the hook's state as it was, writes the unchanged
  list and calls every listener.
\<close>

theorem C10_unknown_id_toggle:
  assumes "appId \<notin> app_id ` set (rideApps s)"
  shows "toggleAppEnabled None ls appId s
           = (Inr (), s,
              Storage_setItem APP_MANAGER_STORAGE_KEY (rideApps s) # map Listener_called ls)"
proof -
  have "map (\<lambda>app. if app_id app = appId
                    then app\<lparr>enabled := Bool (\<not> truthy (enabled app))\<rparr> else app) (rideApps s)
          = rideApps s"
    using assms by (intro map_idI) auto
  then show ?thesis
    by (simp add: toggleAppEnabled_def saveAppConfiguration_def emit_def Let_def)
qed

text \<open>Claim C10 for the id \<open>cabify\<close> at mount, with two subscribers.\<close>

theorem C10_witness:
  "js ''cabify'' \<notin> app_id ` set (rideApps useAppManager_initial)
   \<and> toggleAppEnabled None [1, 2] (js ''cabify'') useAppManager_initial
       = (Inr (), useAppManager_initial,
          [Storage_setItem APP_MANAGER_STORAGE_KEY DEFAULT_RIDE_APPS,
           Listener_called 1, Listener_called 2])"
proof -
  have unknown: "js ''cabify'' \<notin> app_id ` set (rideApps useAppManager_initial)"
    by (simp add: useAppManager_initial_def DEFAULT_RIDE_APPS_def mk_app_def js_def)
  from C10_unknown_id_toggle [OF unknown, of "[1, 2]"] unknown show ?thesis
    by (simp add: useAppManager_initial_def)
qed

end
